theory Spec2Isabelle
  imports Complex_Main
begin

section \<open>The question engine of \<open>main.py\<close>\<close>

text \<open>
  The service keeps a table of sales rows and answers four kinds of question about it.
  \<open>answer_question\<close> tries four regular expressions on the question with
  \<open>re.search\<close> and \<open>re.IGNORECASE\<close>, in the order of the source, and runs one
  aggregation over the table for the first that matches.

  Conventions of the embedding.
  \<^item> A question is a \<open>string\<close>: a list of characters whose code points lie below 256.
    The classes \<open>\w\<close> and \<open>\s\<close> and the case folding are those of Python's
    Unicode patterns on that range.
  \<^item> The \<open>sales\<close> column is numeric; its values are taken as exact rationals, so sums and
    means are exact (neither the rounding of binary floating point nor the wrap-around of
    a 64-bit integer column is part of the model). The mean of no values, \<open>NaN\<close> in the
    source, is \<open>None\<close>.
  \<^item> A \<open>date\<close> is a calendar date; the time of day of a timestamp is not read by the
    engine and is left out.
  \<^item> The table is the global \<open>df\<close> of the source; here it is an argument.
  \<^item> Every library call that can raise has an error branch: \<open>idxmax\<close> of an empty
    series, \<open>loc\<close> of an absent label, tuple unpacking of the wrong length, the first
    component of an empty tuple.
\<close>

subsection \<open>Characters\<close>

definition code :: "char \<Rightarrow> nat" where
  "code c = of_char c"

definition in_range :: "nat \<Rightarrow> nat \<Rightarrow> char \<Rightarrow> bool" where
  "in_range lo hi c = (lo \<le> code c \<and> code c \<le> hi)"

text \<open>\<open>\w\<close>: alphanumeric in the Unicode sense, or the underscore.\<close>

definition is_word :: "char \<Rightarrow> bool" where
  "is_word c =
     (in_range 48 57 c \<or> in_range 65 90 c \<or> in_range 97 122 c \<or> c = CHR ''_''
      \<or> code c \<in> {170, 178, 179, 181, 185, 186, 188, 189, 190}
      \<or> in_range 192 214 c \<or> in_range 216 246 c \<or> in_range 248 255 c)"

text \<open>\<open>\s\<close>: Unicode whitespace.\<close>

definition is_space :: "char \<Rightarrow> bool" where
  "is_space c = (in_range 9 13 c \<or> in_range 28 32 c \<or> code c \<in> {133, 160})"

text \<open>The simple lower-case mapping that \<open>re.IGNORECASE\<close> applies to a character.\<close>

definition lower :: "char \<Rightarrow> char" where
  "lower c =
     (if in_range 65 90 c \<or> in_range 192 214 c \<or> in_range 216 222 c
      then char_of (code c + 32) else c)"

subsection \<open>Regular expressions\<close>

text \<open>
  The four patterns are sequences of literal characters and capturing groups of the form
  \<open>(C+)\<close> for a character class \<open>C\<close>. Three classes occur:
  \<open>\w\<close>, \<open>[\w\s]\<close> and \<open>[\w\s.'-]\<close>.
\<close>

datatype cclass = Word | WordSpace | WordSpaceDotQuoteDash

fun in_class :: "cclass \<Rightarrow> char \<Rightarrow> bool" where
  "in_class Word c = is_word c"
| "in_class WordSpace c = (is_word c \<or> is_space c)"
| "in_class WordSpaceDotQuoteDash c =
     (is_word c \<or> is_space c \<or> c = CHR ''.'' \<or> c = CHR 0x27 \<or> c = CHR ''-'')"

datatype item = Lit char | Group cclass

definition lits :: "string \<Rightarrow> item list" where
  "lits s = map Lit s"

text \<open>
  A greedy repetition first takes as many characters as the class allows and then gives
  them back one at a time, down to one, until the rest of the pattern matches.
\<close>

fun try_counts :: "(nat \<Rightarrow> 'a option) \<Rightarrow> nat \<Rightarrow> 'a option" where
  "try_counts f 0 = None"
| "try_counts f (Suc k) =
     (case f (Suc k) of Some r \<Rightarrow> Some r | None \<Rightarrow> try_counts f k)"

text \<open>
  \<open>match_at p s\<close> matches the pattern at the start of \<open>s\<close> and returns the captured
  groups, in order. A literal matches a character with the same lower-case form.
\<close>

fun match_at :: "item list \<Rightarrow> string \<Rightarrow> string list option" where
  "match_at [] s = Some []"
| "match_at (Lit c # p) s =
     (case s of
        [] \<Rightarrow> None
      | x # xs \<Rightarrow> if lower x = lower c then match_at p xs else None)"
| "match_at (Group cl # p) s =
     try_counts
       (\<lambda>k. case match_at p (drop k s) of
               None \<Rightarrow> None
             | Some g \<Rightarrow> Some (take k s # g))
       (length (takeWhile (in_class cl) s))"

text \<open>\<open>re.search\<close>: the match at the leftmost position that has one.\<close>

fun re_search :: "item list \<Rightarrow> string \<Rightarrow> string list option" where
  "re_search p [] = match_at p []"
| "re_search p (c # cs) =
     (case match_at p (c # cs) of
        Some g \<Rightarrow> Some g
      | None \<Rightarrow> re_search p cs)"

definition pattern1 :: "item list" where
  "pattern1 =
     lits ''What is the total sales of '' @ [Group Word] @ lits '' in '' @ [Group Word]
     @ lits ''?''"

definition pattern2 :: "item list" where
  "pattern2 = lits ''How many sales reps are there in '' @ [Group WordSpace] @ lits ''?''"

definition pattern3 :: "item list" where
  "pattern3 =
     lits ''What is the average sales for '' @ [Group Word] @ lits '' in ''
     @ [Group WordSpace] @ lits ''?''"

definition pattern4 :: "item list" where
  "pattern4 =
     lits ''On what date did '' @ [Group WordSpaceDotQuoteDash]
     @ lits '' make the highest sale in '' @ [Group WordSpace] @ lits ''?''"

subsection \<open>The table\<close>

text \<open>
  One row of the data file, after \<open>pd.to_numeric\<close> on \<open>sales\<close> and
  \<open>pd.to_datetime\<close> on \<open>date\<close>. Only the calendar date of a timestamp is read by
  the engine.
\<close>

record timestamp =
  year :: nat
  month :: nat
  day :: nat

record row =
  product :: string
  city :: string
  region :: string
  rep :: string
  sales :: rat
  date :: timestamp

text \<open>
  A data frame is the list of its rows in order, each with its index label;
  \<open>pd.DataFrame(data)\<close> labels the rows \<open>0, 1, 2, \<dots>\<close>. A series is a column: the
  labels with one value each.
\<close>

type_synonym frame = "(nat \<times> row) list"

type_synonym 'a series = "(nat \<times> 'a) list"

definition DataFrame :: "row list \<Rightarrow> frame" where
  "DataFrame data = zip [0..<length data] data"

text \<open>\<open>df[cond]\<close>: the rows that satisfy a condition, labels kept.\<close>

definition where_rows :: "(row \<Rightarrow> bool) \<Rightarrow> frame \<Rightarrow> frame" where
  "where_rows cond df = filter (\<lambda>(l, r). cond r) df"

text \<open>\<open>df[name]\<close>: one column.\<close>

definition column :: "(row \<Rightarrow> 'a) \<Rightarrow> frame \<Rightarrow> 'a series" where
  "column f df = map (\<lambda>(l, r). (l, f r)) df"

definition df_empty :: "frame \<Rightarrow> bool" where
  "df_empty df = (df = [])"

datatype error = ValueError | KeyError | IndexError

text \<open>\<open>.sum()\<close> is 0 on an empty series.\<close>

definition series_sum :: "rat series \<Rightarrow> rat" where
  "series_sum s = sum_list (map snd s)"

text \<open>\<open>.nunique()\<close>: the number of distinct values.\<close>

definition nunique :: "'a series \<Rightarrow> nat" where
  "nunique s = length (remdups (map snd s))"

text \<open>\<open>.mean()\<close> is \<open>NaN\<close> on an empty series, here \<open>None\<close>.\<close>

definition mean :: "rat series \<Rightarrow> rat option" where
  "mean s = (if s = [] then None else Some (sum_list (map snd s) / of_nat (length s)))"

text \<open>
  \<open>.idxmax()\<close>: the label of the first occurrence of the maximum; it raises on an empty
  series.
\<close>

definition keep_max :: "nat \<times> rat \<Rightarrow> nat \<times> rat \<Rightarrow> nat \<times> rat" where
  "keep_max best x = (if snd best < snd x then x else best)"

fun idxmax :: "rat series \<Rightarrow> error + nat" where
  "idxmax [] = Inl ValueError"
| "idxmax (x # s) = Inr (fst (foldl keep_max x s))"

text \<open>\<open>.loc[label]\<close>: the row with a label; it raises when there is none.\<close>

definition loc :: "frame \<Rightarrow> nat \<Rightarrow> error + row" where
  "loc df l = (case map_of df l of None \<Rightarrow> Inl KeyError | Some r \<Rightarrow> Inr r)"

subsection \<open>Python built-ins\<close>

text \<open>\<open>int(x)\<close> drops the fractional part.\<close>

definition py_int :: "rat \<Rightarrow> int" where
  "py_int x = (if 0 \<le> x then \<lfloor>x\<rfloor> else \<lceil>x\<rceil>)"

text \<open>\<open>round(x, n)\<close>: to the nearest multiple of \<open>10\<^sup>-\<^sup>n\<close>, a tie going to the even one.\<close>

definition round_half_even :: "rat \<Rightarrow> int" where
  "round_half_even y =
     (let f = \<lfloor>y\<rfloor>; d = y - of_int f
      in if d < 1 / 2 then f
         else if 1 / 2 < d then f + 1
         else if even f then f else f + 1)"

definition py_round :: "rat \<Rightarrow> nat \<Rightarrow> rat" where
  "py_round x n = of_int (round_half_even (x * 10 ^ n)) / 10 ^ n"

text \<open>\<open>a, b = t\<close> raises unless \<open>t\<close> has two components.\<close>

fun unpack2 :: "'a list \<Rightarrow> error + ('a \<times> 'a)" where
  "unpack2 [a, b] = Inr (a, b)"
| "unpack2 _ = Inl ValueError"

text \<open>\<open>t[0]\<close> raises on the empty tuple.\<close>

fun item0 :: "'a list \<Rightarrow> error + 'a" where
  "item0 [] = Inl IndexError"
| "item0 (a # _) = Inr a"

text \<open>Decimal digits of a number, and zero padding on the left to a width.\<close>

definition digit :: "nat \<Rightarrow> char" where
  "digit d = char_of (48 + d)"

fun dec :: "nat \<Rightarrow> string" where
  "dec n = (if n < 10 then [digit n] else dec (n div 10) @ [digit (n mod 10)])"

declare dec.simps [simp del]

definition zpad :: "nat \<Rightarrow> string \<Rightarrow> string" where
  "zpad w s = replicate (w - length s) CHR ''0'' @ s"

text \<open>\<open>strftime('%Y-%m-%d')\<close>.\<close>

definition strftime :: "timestamp \<Rightarrow> string" where
  "strftime t =
     zpad 4 (dec (year t)) @ ''-'' @ zpad 2 (dec (month t)) @ ''-'' @ zpad 2 (dec (day t))"

subsection \<open>Answers\<close>

text \<open>The function returns a Python \<open>int\<close>, a float or a \<open>str\<close>.\<close>

datatype answer = AInt int | AFloat rat | AStr string

text \<open>Pattern 1: total sales of a product in a city.\<close>

definition total_sales :: "frame \<Rightarrow> string list \<Rightarrow> error + answer" where
  "total_sales df g =
     (case unpack2 g of
        Inl e \<Rightarrow> Inl e
      | Inr (p, c) \<Rightarrow>
          (let result =
                 series_sum (column sales (where_rows (\<lambda>r. product r = p \<and> city r = c) df))
           in Inr (AInt (py_int result))))"

text \<open>Pattern 2: how many sales reps there are in a region.\<close>

definition count_reps :: "frame \<Rightarrow> string list \<Rightarrow> error + answer" where
  "count_reps df g =
     (case item0 g of
        Inl e \<Rightarrow> Inl e
      | Inr rg \<Rightarrow>
          (let result = nunique (column rep (where_rows (\<lambda>r. region r = rg) df))
           in Inr (AInt (int result))))"

text \<open>Pattern 3: average sales for a product in a region.\<close>

definition average_sales :: "frame \<Rightarrow> string list \<Rightarrow> error + answer" where
  "average_sales df g =
     (case unpack2 g of
        Inl e \<Rightarrow> Inl e
      | Inr (p, rg) \<Rightarrow>
          (case mean (column sales (where_rows (\<lambda>r. product r = p \<and> region r = rg) df)) of
             Some result \<Rightarrow> Inr (AFloat (py_round result 2))
           | None \<Rightarrow> Inr (AInt 0)))"

text \<open>Pattern 4: the date on which a rep made the highest sale in a city.\<close>

definition highest_sale_date :: "frame \<Rightarrow> string list \<Rightarrow> error + answer" where
  "highest_sale_date df g =
     (case unpack2 g of
        Inl e \<Rightarrow> Inl e
      | Inr (rp, c) \<Rightarrow>
          (let subset = where_rows (\<lambda>r. rep r = rp \<and> city r = c) df
           in if \<not> df_empty subset
              then (case idxmax (column sales subset) of
                      Inl e \<Rightarrow> Inl e
                    | Inr l \<Rightarrow>
                        (case loc subset l of
                           Inl e \<Rightarrow> Inl e
                         | Inr highest_sale_row \<Rightarrow>
                             Inr (AStr (strftime (date highest_sale_row)))))
              else Inr (AStr ''No sales data found for this rep in this city.'')))"

text \<open>The patterns are tried in this order; the first that matches answers.\<close>

definition answer_question :: "frame \<Rightarrow> string \<Rightarrow> error + answer" where
  "answer_question df question =
     (case re_search pattern1 question of
        Some g \<Rightarrow> total_sales df g
      | None \<Rightarrow>
     (case re_search pattern2 question of
        Some g \<Rightarrow> count_reps df g
      | None \<Rightarrow>
     (case re_search pattern3 question of
        Some g \<Rightarrow> average_sales df g
      | None \<Rightarrow>
     (case re_search pattern4 question of
        Some g \<Rightarrow> highest_sale_date df g
      | None \<Rightarrow> Inr (AStr ''Sorry, I can't answer that question.'')))))"

subsection \<open>The endpoint\<close>

definition email_address :: string where
  "email_address = ''22f3003185@ds.study.iitm.ac.in''"

text \<open>The reply: the \<open>X-Email\<close> header and the two fields of the JSON body.\<close>

record reply =
  x_email :: string
  answer :: answer
  email :: string

definition handle_query :: "frame \<Rightarrow> string \<Rightarrow> error + reply" where
  "handle_query df q =
     (if df_empty df
      then Inr \<lparr>x_email = email_address, answer = AStr ''Error: Dataset not loaded.'',
                email = email_address\<rparr>
      else (case answer_question df q of
              Inl e \<Rightarrow> Inl e
            | Inr a \<Rightarrow> Inr \<lparr>x_email = email_address, answer = a, email = email_address\<rparr>))"

subsection \<open>Notions used in the proofs and examples\<close>

text \<open>The classes of the groups of a pattern, in order.\<close>

fun groups_of :: "item list \<Rightarrow> cclass list" where
  "groups_of [] = []"
| "groups_of (Lit c # p) = groups_of p"
| "groups_of (Group cl # p) = cl # groups_of p"

text \<open>What a group of class \<open>cl\<close> can capture: a non-empty string over the class.\<close>

definition captured :: "cclass \<Rightarrow> string \<Rightarrow> bool" where
  "captured cl w = (w \<noteq> [] \<and> (\<forall>c\<in>set w. in_class cl c))"

text \<open>
  Two stores for the examples: the two rows of the concrete scenario of the specification,
  and two rows of one rep in one city with equal sales.
\<close>

definition example_store :: "row list" where
  "example_store =
     [\<lparr>product = ''Widget'', city = ''Boston'', region = ''East'', rep = ''Jane Doe'',
       sales = 100, date = \<lparr>year = 2024, month = 1, day = 5\<rparr>\<rparr>,
      \<lparr>product = ''Widget'', city = ''Boston'', region = ''East'', rep = ''Jane Doe'',
       sales = 250, date = \<lparr>year = 2024, month = 2, day = 10\<rparr>\<rparr>]"

definition tie_store :: "row list" where
  "tie_store =
     [\<lparr>product = ''Gadget'', city = ''Boston'', region = ''East'', rep = ''Jane Doe'',
       sales = 100, date = \<lparr>year = 2024, month = 1, day = 5\<rparr>\<rparr>,
      \<lparr>product = ''Widget'', city = ''Boston'', region = ''East'', rep = ''Jane Doe'',
       sales = 100, date = \<lparr>year = 2024, month = 2, day = 10\<rparr>\<rparr>]"

section \<open>Properties\<close>

subsection \<open>The matcher\<close>

lemma try_counts_Some:
  "try_counts f n = Some r \<Longrightarrow> \<exists>k. 1 \<le> k \<and> k \<le> n \<and> f k = Some r \<and> (\<forall>j. k < j \<and> j \<le> n \<longrightarrow> f j = None)"
proof (induction n)
  case 0
  then show ?case by simp
next
  case (Suc n)
  show ?case
  proof (cases "f (Suc n)")
    case None
    with Suc.prems have "try_counts f n = Some r" by simp
    from Suc.IH [OF this] obtain k where
      k: "1 \<le> k" "k \<le> n" "f k = Some r" "\<forall>j. k < j \<and> j \<le> n \<longrightarrow> f j = None"
      by blast
    have "\<forall>j. k < j \<and> j \<le> Suc n \<longrightarrow> f j = None"
      using k(4) None by (auto simp: le_Suc_eq)
    with k show ?thesis by (intro exI [of _ k]) simp
  next
    case (Some a)
    with Suc.prems have "a = r" by simp
    with Some show ?thesis by (intro exI [of _ "Suc n"]) auto
  qed
qed

lemma try_counts_None:
  "try_counts f n = None \<longleftrightarrow> (\<forall>k. 1 \<le> k \<and> k \<le> n \<longrightarrow> f k = None)"
proof (induction n)
  case 0
  then show ?case by simp
next
  case (Suc n)
  show ?case
  proof (cases "f (Suc n)")
    case None
    then show ?thesis using Suc.IH by (auto simp: le_Suc_eq)
  next
    case (Some a)
    then show ?thesis by auto
  qed
qed

lemma try_counts_top:
  "f n = Some r \<Longrightarrow> 0 < n \<Longrightarrow> try_counts f n = Some r"
  by (cases n) simp_all

lemma re_search_Some: "re_search p s = Some g \<Longrightarrow> \<exists>i\<le>length s. match_at p (drop i s) = Some g"
proof (induction s)
  case Nil
  then show ?case by simp
next
  case (Cons c cs)
  show ?case
  proof (cases "match_at p (c # cs)")
    case None
    with Cons.prems have "re_search p cs = Some g" by simp
    from Cons.IH [OF this] obtain i where "i \<le> length cs" "match_at p (drop i cs) = Some g" by blast
    then show ?thesis by (intro exI [of _ "Suc i"]) simp
  next
    case (Some a)
    with Cons.prems show ?thesis by (intro exI [of _ 0]) simp
  qed
qed

lemma re_search_first: "match_at p s = Some g \<Longrightarrow> re_search p s = Some g"
  by (cases s) simp_all

subsection \<open>Literals in any letter case, and what groups capture\<close>

lemma code_char_of: "n < 256 \<Longrightarrow> code (char_of n) = n"
  by (simp add: code_def)

lemma lower_fixed:
  assumes "lower x = t" and "code t < 97"
  shows "x = t"
proof (rule ccontr)
  assume ne: "x \<noteq> t"
  with assms(1) have up: "in_range 65 90 x \<or> in_range 192 214 x \<or> in_range 216 222 x"
    and eq: "char_of (code x + 32) = t"
    by (auto simp: lower_def split: if_splits)
  from up have "code x + 32 < 256" "97 \<le> code x + 32"
    by (auto simp: in_range_def)
  with eq have "code t = code x + 32" "97 \<le> code x + 32"
    using code_char_of by auto
  with assms(2) show False by simp
qed

lemma lower_space [simp]: "lower x = CHR '' '' \<longleftrightarrow> x = CHR '' ''"
  by (auto dest: lower_fixed simp: code_def) (simp add: lower_def in_range_def code_def)

lemma not_class_qmark [simp]: "\<not> in_class cl CHR ''?''"
  by (cases cl) (simp_all add: is_word_def is_space_def in_range_def code_def)

lemma not_word_space [simp]: "\<not> is_word CHR '' ''"
  by (simp add: is_word_def in_range_def code_def)

lemma match_lits:
  "map lower l = map lower L \<Longrightarrow> match_at (lits L @ p) (l @ s) = match_at p s"
proof (induction L arbitrary: l)
  case Nil
  then show ?case by (simp add: lits_def)
next
  case (Cons a L)
  then obtain x xs where l: "l = x # xs" "lower x = lower a" "map lower xs = map lower L"
    by (cases l) auto
  with Cons.IH [of xs] show ?case by (simp add: lits_def)
qed

lemma match_group_exact:
  assumes "w \<noteq> []" and "\<forall>c\<in>set w. in_class cl c"
    and "s = [] \<or> \<not> in_class cl (hd s)"
    and "match_at p s = Some g"
  shows "match_at (Group cl # p) (w @ s) = Some (w # g)"
proof -
  have "takeWhile (in_class cl) s = []"
    using assms(3) by (cases s) auto
  with assms(2) have tw: "takeWhile (in_class cl) (w @ s) = w"
    by simp
  have "0 < length w" using assms(1) by simp
  then show ?thesis
    using assms(4) by (simp add: tw try_counts_top)
qed

lemma match_group_complete:
  assumes "1 \<le> k" and "k \<le> length (takeWhile (in_class cl) s)"
    and "match_at p (drop k s) \<noteq> None"
  shows "match_at (Group cl # p) s \<noteq> None"
proof
  assume "match_at (Group cl # p) s = None"
  then have "(case match_at p (drop k s) of None \<Rightarrow> None | Some g \<Rightarrow> Some (take k s # g)) = None"
    using assms(1,2) by (simp add: try_counts_None)
  with assms(3) show False by (auto split: option.splits)
qed

lemma take_in_class:
  assumes "1 \<le> k" and "k \<le> length (takeWhile P s)"
  shows "take k s \<noteq> [] \<and> (\<forall>c\<in>set (take k s). P c)"
proof -
  have "take k s = take k (takeWhile P s)"
    using assms(2) by (metis takeWhile_eq_take take_take min.absorb1)
  moreover have "set (take k (takeWhile P s)) \<subseteq> set (takeWhile P s)"
    by (rule set_take_subset)
  moreover have "takeWhile P s \<noteq> []" using assms by auto
  ultimately show ?thesis
    using assms(1) by (auto dest: set_takeWhileD)
qed

lemma match_at_captured:
  "match_at p s = Some g \<Longrightarrow> list_all2 captured (groups_of p) g"
proof (induction p arbitrary: s g)
  case Nil
  then show ?case by simp
next
  case (Cons a p)
  show ?case
  proof (cases a)
    case (Lit c)
    with Cons show ?thesis by (auto split: list.splits if_splits)
  next
    case (Group cl)
    with Cons.prems obtain k where k: "1 \<le> k" "k \<le> length (takeWhile (in_class cl) s)"
      and "(case match_at p (drop k s) of None \<Rightarrow> None | Some g \<Rightarrow> Some (take k s # g)) = Some g"
      by (auto dest!: try_counts_Some)
    then obtain g' where g': "match_at p (drop k s) = Some g'" "g = take k s # g'"
      by (auto split: option.splits)
    from take_in_class [OF k] have "captured cl (take k s)"
      by (simp add: captured_def)
    with Cons.IH [OF g'(1)] g'(2) Group show ?thesis by simp
  qed
qed

lemma groups_of_append: "groups_of (p @ q) = groups_of p @ groups_of q"
  by (induction p rule: groups_of.induct) simp_all

lemma groups_of_lits [simp]: "groups_of (lits s) = []"
  by (induction s) (simp_all add: lits_def)

lemma groups_of_patterns:
  "groups_of pattern1 = [Word, Word]"
  "groups_of pattern2 = [WordSpace]"
  "groups_of pattern3 = [Word, WordSpace]"
  "groups_of pattern4 = [WordSpaceDotQuoteDash, WordSpace]"
  by (simp_all add: pattern1_def pattern2_def pattern3_def pattern4_def groups_of_append)

lemma re_search_captured:
  "re_search p s = Some g \<Longrightarrow> list_all2 captured (groups_of p) g"
  by (auto dest!: re_search_Some match_at_captured)

lemma captured2:
  "list_all2 captured [a, b] g \<Longrightarrow> \<exists>x y. g = [x, y] \<and> captured a x \<and> captured b y"
  by (auto simp: list_all2_Cons1)

lemma captured1:
  "list_all2 captured [a] g \<Longrightarrow> \<exists>x. g = [x] \<and> captured a x"
  by (auto simp: list_all2_Cons1)

subsection \<open>Frames, columns and aggregations\<close>

lemma rows_where:
  "map snd (where_rows cond (DataFrame data)) = filter cond data"
proof -
  have "map snd (filter (\<lambda>(l, r). cond r) xs) = filter cond (map snd xs)" for xs :: frame
    by (induction xs) auto
  then show ?thesis by (simp add: where_rows_def DataFrame_def)
qed

lemma labels_where:
  "distinct (map fst (where_rows cond (DataFrame data)))"
proof -
  have "distinct (map fst (DataFrame data))" by (simp add: DataFrame_def)
  then show ?thesis unfolding where_rows_def by (rule distinct_map_filter)
qed

lemma values_column: "map snd (column f df) = map f (map snd df)"
  by (induction df) (auto simp: column_def)


lemma nunique_where:
  "nunique (column f (where_rows cond (DataFrame data))) = card (f ` {r \<in> set data. cond r})"
proof -
  have "nunique (column f (where_rows cond (DataFrame data))) =
          length (remdups (map f (filter cond data)))"
    by (simp add: nunique_def values_column rows_where)
  also have "\<dots> = card (set (map f (filter cond data)))"
    by (simp add: length_remdups_card_conv)
  also have "set (map f (filter cond data)) = f ` {r \<in> set data. cond r}"
    by auto
  finally show ?thesis .
qed





subsection \<open>The first maximum, and dates\<close>

lemma foldl_max_first:
  "foldl keep_max b s = r \<Longrightarrow>
     \<exists>pre post. b # s = pre @ r # post \<and> (\<forall>x\<in>set pre. snd x < snd r)
       \<and> (\<forall>x\<in>set post. snd x \<le> snd r)"
proof (induction s arbitrary: b)
  case Nil
  then show ?case by (intro exI [of _ "[]"]) simp
next
  case (Cons x s)
  show ?case
  proof (cases "snd b < snd x")
    case True
    then have "keep_max b x = x" by (simp add: keep_max_def)
    with Cons.prems have "foldl keep_max x s = r" by simp
    from Cons.IH [OF this] obtain pre post where
      IH: "x # s = pre @ r # post" "\<forall>y\<in>set pre. snd y < snd r" "\<forall>y\<in>set post. snd y \<le> snd r"
      by blast
    have "x \<in> set (pre @ r # post)" using IH(1) by (metis list.set_intros(1))
    with IH(2,3) have "snd x \<le> snd r" by auto
    with True have "snd b < snd r" by simp
    with IH(2) have "\<forall>y\<in>set (b # pre). snd y < snd r" by simp
    moreover have "b # x # s = (b # pre) @ r # post" using IH(1) by simp
    ultimately show ?thesis using IH(3) by blast
  next
    case False
    then have "keep_max b x = b" by (simp add: keep_max_def)
    with Cons.prems have "foldl keep_max b s = r" by simp
    from Cons.IH [OF this] obtain pre post where
      IH: "b # s = pre @ r # post" "\<forall>y\<in>set pre. snd y < snd r" "\<forall>y\<in>set post. snd y \<le> snd r"
      by blast
    show ?thesis
    proof (cases pre)
      case Nil
      with IH(1) have br: "b = r" "s = post" by simp_all
      with False have "snd x \<le> snd r" by simp
      with IH(3) have "\<forall>y\<in>set (x # post). snd y \<le> snd r" by simp
      moreover have "b # x # s = [] @ r # (x # post)" using br by simp
      ultimately show ?thesis by (metis empty_iff list.set(1))
    next
      case (Cons a pre')
      with IH(1) have a: "a = b" "s = pre' @ r # post" by simp_all
      from IH(2) Cons a(1) have "snd b < snd r" by simp
      with False have "snd x < snd r" by simp
      with IH(2) Cons a(1) have "\<forall>y\<in>set (b # x # pre'). snd y < snd r" by simp
      moreover have "b # x # s = (b # x # pre') @ r # post" using a(2) by simp
      ultimately show ?thesis using IH(3) by blast
    qed
  qed
qed

lemma idxmax_first:
  assumes "s \<noteq> []"
  shows "\<exists>pre l v post. s = pre @ (l, v) # post \<and> idxmax s = Inr l
           \<and> (\<forall>x\<in>set pre. snd x < v) \<and> (\<forall>x\<in>set post. snd x \<le> v)"
proof -
  from assms obtain b s' where s: "s = b # s'" by (cases s) auto
  obtain l v where r: "foldl keep_max b s' = (l, v)" by (cases "foldl keep_max b s'")
  from foldl_max_first [OF r] obtain pre post where
    P: "b # s' = pre @ (l, v) # post" "\<forall>x\<in>set pre. snd x < v" "\<forall>x\<in>set post. snd x \<le> v"
    by auto
  have "idxmax s = Inr l" by (simp add: s r)
  with P s show ?thesis by blast
qed

lemma loc_distinct:
  "distinct (map fst df) \<Longrightarrow> (l, r) \<in> set df \<Longrightarrow> loc df l = Inr r"
  by (simp add: loc_def)

lemma highest_sale_date_rows:
  assumes ne: "filter (\<lambda>r. rep r = rp \<and> city r = c) data \<noteq> []"
  shows "\<exists>pre r post. filter (\<lambda>r. rep r = rp \<and> city r = c) data = pre @ r # post
           \<and> (\<forall>x\<in>set pre. sales x < sales r) \<and> (\<forall>x\<in>set post. sales x \<le> sales r)
           \<and> highest_sale_date (DataFrame data) [rp, c] = Inr (AStr (strftime (date r)))"
proof -
  let ?cond = "\<lambda>r. rep r = rp \<and> city r = c"
  let ?subset = "where_rows ?cond (DataFrame data)"
  have rows: "map snd ?subset = filter ?cond data" by (rule rows_where)
  with ne have sne: "?subset \<noteq> []" by auto
  then have "column sales ?subset \<noteq> []" by (simp add: column_def)
  from idxmax_first [OF this] obtain pre l v post where
    s: "column sales ?subset = pre @ (l, v) # post" and im: "idxmax (column sales ?subset) = Inr l"
    and lt: "\<forall>x\<in>set pre. snd x < v" and le: "\<forall>x\<in>set post. snd x \<le> v"
    by blast
  from s obtain fpre fr fpost where
    f: "?subset = fpre @ fr # fpost" "map (\<lambda>(l, r). (l, sales r)) fpre = pre"
       "(\<lambda>(l, r). (l, sales r)) fr = (l, v)" "map (\<lambda>(l, r). (l, sales r)) fpost = post"
    unfolding column_def by (auto simp: map_eq_append_conv map_eq_Cons_conv)
  obtain r where fr: "fr = (l, r)" "sales r = v" using f(3) by (cases fr) auto
  have "(l, r) \<in> set ?subset" by (simp add: f(1) fr)
  with labels_where have lc: "loc ?subset l = Inr r" by (rule loc_distinct)
  have ans: "highest_sale_date (DataFrame data) [rp, c] = Inr (AStr (strftime (date r)))"
    using sne by (simp add: highest_sale_date_def Let_def df_empty_def im lc)
  have dec: "filter ?cond data = map snd fpre @ r # map snd fpost"
    using rows by (simp add: f(1) fr)
  have "\<forall>x\<in>set (map snd fpre). sales x < sales r"
    using lt f(2) fr(2) by force
  moreover have "\<forall>x\<in>set (map snd fpost). sales x \<le> sales r"
    using le f(4) fr(2) by force
  ultimately show ?thesis using dec ans by blast
qed

lemma highest_sale_date_none:
  assumes "filter (\<lambda>r. rep r = rp \<and> city r = c) data = []"
  shows "highest_sale_date (DataFrame data) [rp, c] =
           Inr (AStr ''No sales data found for this rep in this city.'')"
proof -
  have "map snd (where_rows (\<lambda>r. rep r = rp \<and> city r = c) (DataFrame data)) = []"
    using assms by (simp only: rows_where)
  then show ?thesis by (simp add: highest_sale_date_def df_empty_def)
qed

lemma dec1: "n < 10 \<Longrightarrow> dec n = [digit n]"
  by (subst dec.simps) simp

lemma dec2: "10 \<le> n \<Longrightarrow> n < 100 \<Longrightarrow> dec n = [digit (n div 10), digit (n mod 10)]"
  by (subst dec.simps) (simp add: dec1)

lemma dec3: "100 \<le> n \<Longrightarrow> n < 1000 \<Longrightarrow> dec n = [digit (n div 100), digit (n div 10 mod 10), digit (n mod 10)]"
  by (subst dec.simps) (simp add: dec2 div_mult2_eq [symmetric])

lemma dec4: "1000 \<le> n \<Longrightarrow> n < 10000 \<Longrightarrow>
    dec n = [digit (n div 1000), digit (n div 100 mod 10), digit (n div 10 mod 10), digit (n mod 10)]"
  by (subst dec.simps) (simp add: dec3 div_mult2_eq [symmetric])

lemma digit0: "CHR ''0'' = digit 0"
  by code_simp

lemma zpad2: "n < 100 \<Longrightarrow> zpad 2 (dec n) = [digit (n div 10), digit (n mod 10)]"
  by (cases "n < 10") (simp_all add: zpad_def dec1 dec2 digit0)

lemma strftime_format:
  assumes "1000 \<le> year t" "year t < 10000" "month t < 100" "day t < 100"
  shows "strftime t =
     [digit (year t div 1000), digit (year t div 100 mod 10), digit (year t div 10 mod 10),
      digit (year t mod 10), CHR ''-'', digit (month t div 10), digit (month t mod 10),
      CHR ''-'', digit (day t div 10), digit (day t mod 10)]"
  using assms by (simp add: strftime_def zpad2 dec4) (simp add: zpad_def)

subsection \<open>The four aggregations on a store\<close>

lemma two_groups:
  assumes "re_search p q = Some g" and "groups_of p = [a, b]"
  shows "\<exists>x y. g = [x, y] \<and> captured a x \<and> captured b y"
  using re_search_captured [OF assms(1)] assms(2) by (simp add: captured2)

lemma one_group:
  assumes "re_search p q = Some g" and "groups_of p = [a]"
  shows "\<exists>x. g = [x] \<and> captured a x"
  using re_search_captured [OF assms(1)] assms(2) by (simp add: captured1)


lemma count_reps_rows:
  "count_reps (DataFrame data) [rg] =
     Inr (AInt (int (card (rep ` {r \<in> set data. region r = rg}))))"
  by (simp add: count_reps_def nunique_where)


lemma split_pair:
  "[a, b] = pre @ r # post \<Longrightarrow>
     (pre = [] \<and> r = a \<and> post = [b]) \<or> (pre = [a] \<and> r = b \<and> post = [])"
  by (auto simp: Cons_eq_append_conv)





subsection \<open>Questions in canonical form\<close>


lemma match_qmark: "match_at (lits ''?'') ''?'' = Some []"
  by (simp add: lits_def)

lemma last_group:
  assumes "c \<noteq> []" and "\<forall>ch\<in>set c. in_class cl ch"
  shows "match_at (Group cl # lits ''?'') (c @ ''?'') = Some [c]"
  using match_group_exact [OF assms _ match_qmark] by simp



lemma pattern4_canonical:
  assumes l1: "map lower l1 = map lower ''On what date did ''"
    and l2: "map lower l2 = map lower '' make the highest sale in ''"
    and rp: "rp \<noteq> []" "\<forall>ch\<in>set rp. in_class WordSpaceDotQuoteDash ch"
    and c: "c \<noteq> []" "\<forall>ch\<in>set c. in_class WordSpace ch"
  shows "re_search pattern4 (l1 @ rp @ l2 @ c @ ''?'') \<noteq> None"
proof -
  let ?rest = "lits '' make the highest sale in '' @ Group WordSpace # lits ''?''"
  have g2: "match_at (Group WordSpace # lits ''?'') (c @ ''?'') = Some [c]"
    using c by (rule last_group)
  have "match_at ?rest (l2 @ c @ ''?'') = Some [c]"
    using match_lits [OF l2] g2 by simp
  then have tail: "match_at ?rest (drop (length rp) (rp @ l2 @ c @ ''?'')) \<noteq> None"
    by simp
  have "takeWhile (in_class WordSpaceDotQuoteDash) (rp @ l2 @ c @ ''?'') =
          rp @ takeWhile (in_class WordSpaceDotQuoteDash) (l2 @ c @ ''?'')"
    using rp(2) by simp
  then have k: "length rp \<le> length (takeWhile (in_class WordSpaceDotQuoteDash) (rp @ l2 @ c @ ''?''))"
    by simp
  have "1 \<le> length rp" using rp(1) by (cases rp) simp_all
  from match_group_complete [OF this k tail]
  have "match_at (Group WordSpaceDotQuoteDash # ?rest) (rp @ l2 @ c @ ''?'') \<noteq> None" .
  then have "match_at pattern4 (l1 @ rp @ l2 @ c @ ''?'') \<noteq> None"
    unfolding pattern4_def using match_lits [OF l1] by simp
  then obtain g where "match_at pattern4 (l1 @ rp @ l2 @ c @ ''?'') = Some g" by blast
  then have "re_search pattern4 (l1 @ rp @ l2 @ c @ ''?'') = Some g" by (rule re_search_first)
  then show ?thesis by simp
qed

subsection \<open>The claims\<close>



text \<open>
  Claim C4. When the second pattern decides the answer (the first does not match), it
  captures a region and the answer is the number of distinct \<open>rep\<close> values among the rows
  of the store with that region, as an integer; it is 0 when no row has that region.
\<close>

theorem count_reps_answer:
  assumes "re_search pattern1 question = None"
    and "re_search pattern2 question = Some g"
  shows "\<exists>rg. g = [rg]
           \<and> answer_question (DataFrame data) question =
               Inr (AInt (int (card (rep ` {r \<in> set data. region r = rg}))))
           \<and> ((\<forall>r\<in>set data. region r \<noteq> rg) \<longrightarrow>
                 answer_question (DataFrame data) question = Inr (AInt 0))"
proof -
  from one_group [OF assms(2) groups_of_patterns(2)] obtain rg where g: "g = [rg]"
    by blast
  have ans: "answer_question (DataFrame data) question =
               Inr (AInt (int (card (rep ` {r \<in> set data. region r = rg}))))"
    by (simp add: answer_question_def assms g count_reps_rows)
  have "{r \<in> set data. region r = rg} = {}" if "\<forall>r\<in>set data. region r \<noteq> rg"
    using that by auto
  with g ans show ?thesis by auto
qed

theorem count_reps_answer_witness:
  "re_search pattern1 ''How many sales reps are there in East?'' = None
   \<and> re_search pattern2 ''How many sales reps are there in East?'' = Some [''East'']
   \<and> answer_question (DataFrame example_store) ''How many sales reps are there in East?''
       = Inr (AInt 1)
   \<and> answer_question (DataFrame example_store) ''How many sales reps are there in West?''
       = Inr (AInt 0)"
proof -
  let ?q = "''How many sales reps are there in East?''"
  let ?q' = "''How many sales reps are there in West?''"
  have h1: "re_search pattern1 ?q = None" by code_simp
  have h2: "re_search pattern2 ?q = Some [''East'']" by code_simp
  have h1': "re_search pattern1 ?q' = None" by code_simp
  have h2': "re_search pattern2 ?q' = Some [''West'']" by code_simp
  have "rep ` {r \<in> set example_store. region r = ''East''} =
          set (map rep (filter (\<lambda>r. region r = ''East'') example_store))"
    by auto
  also have "\<dots> = {''Jane Doe''}" by (simp add: example_store_def)
  finally have reps: "rep ` {r \<in> set example_store. region r = ''East''} = {''Jane Doe''}" .
  from count_reps_answer [OF h1 h2, of example_store]
  have "answer_question (DataFrame example_store) ?q =
          Inr (AInt (int (card (rep ` {r \<in> set example_store. region r = ''East''}))))"
    by simp
  then have a: "answer_question (DataFrame example_store) ?q = Inr (AInt 1)"
    by (simp add: reps)
  have "\<forall>r\<in>set example_store. region r \<noteq> ''West''"
    by (simp add: example_store_def)
  with count_reps_answer [OF h1' h2', of example_store]
  have b: "answer_question (DataFrame example_store) ?q' = Inr (AInt 0)"
    by simp
  from h1 h2 a b show ?thesis by simp
qed



text \<open>
  Claim C2. When the fourth pattern decides the answer (the first three do not match), it
  captures a rep and a city. If no
  row of the store has both, the answer is the message
  \<open>No sales data found for this rep in this city.\<close> Otherwise the answer is the date of
  a row \<open>r\<close> among the rows with that rep and that city such that every earlier one has
  strictly smaller sales and every later one has sales no larger: the first row with the
  maximum. For calendar dates with a four-digit year the date is written as four digits of
  the year, a hyphen, two digits of the month, a hyphen and two digits of the day.
\<close>

theorem highest_sale_date_answer:
  assumes "re_search pattern1 question = None"
    and "re_search pattern2 question = None"
    and "re_search pattern3 question = None"
    and "re_search pattern4 question = Some g"
    and "\<forall>r\<in>set data. 1000 \<le> year (date r) \<and> year (date r) \<le> 9999
           \<and> 1 \<le> month (date r) \<and> month (date r) \<le> 12
           \<and> 1 \<le> day (date r) \<and> day (date r) \<le> 31"
  shows "\<exists>rp c. g = [rp, c]
           \<and> (if filter (\<lambda>r. rep r = rp \<and> city r = c) data = []
              then answer_question (DataFrame data) question =
                     Inr (AStr ''No sales data found for this rep in this city.'')
              else \<exists>pre r post.
                     filter (\<lambda>r. rep r = rp \<and> city r = c) data = pre @ r # post
                     \<and> (\<forall>x\<in>set pre. sales x < sales r)
                     \<and> (\<forall>x\<in>set post. sales x \<le> sales r)
                     \<and> answer_question (DataFrame data) question =
                         Inr (AStr
                           [digit (year (date r) div 1000), digit (year (date r) div 100 mod 10),
                            digit (year (date r) div 10 mod 10), digit (year (date r) mod 10),
                            CHR ''-'',
                            digit (month (date r) div 10), digit (month (date r) mod 10),
                            CHR ''-'',
                            digit (day (date r) div 10), digit (day (date r) mod 10)]))"
proof -
  from two_groups [OF assms(4) groups_of_patterns(4)] obtain rp c where g: "g = [rp, c]"
    by blast
  let ?rows = "filter (\<lambda>r. rep r = rp \<and> city r = c) data"
  have ans: "answer_question (DataFrame data) question = highest_sale_date (DataFrame data) [rp, c]"
    by (simp add: answer_question_def assms(1-4) g)
  show ?thesis
  proof (cases "?rows = []")
    case True
    with g ans highest_sale_date_none [OF True] show ?thesis by simp
  next
    case False
    from highest_sale_date_rows [OF False] obtain pre r post where
      d: "?rows = pre @ r # post" "\<forall>x\<in>set pre. sales x < sales r"
         "\<forall>x\<in>set post. sales x \<le> sales r"
         "highest_sale_date (DataFrame data) [rp, c] = Inr (AStr (strftime (date r)))"
      by blast
    have "r \<in> set ?rows" by (simp add: d(1))
    then have "r \<in> set data" by simp
    with assms(5) have "1000 \<le> year (date r)" "year (date r) < 10000"
      "month (date r) < 100" "day (date r) < 100"
      by force+
    from strftime_format [OF this] d(4) ans
    have "answer_question (DataFrame data) question =
            Inr (AStr
              [digit (year (date r) div 1000), digit (year (date r) div 100 mod 10),
               digit (year (date r) div 10 mod 10), digit (year (date r) mod 10),
               CHR ''-'',
               digit (month (date r) div 10), digit (month (date r) mod 10),
               CHR ''-'',
               digit (day (date r) div 10), digit (day (date r) mod 10)])"
      by simp
    with d(1-3) have "\<exists>pre r post.
        ?rows = pre @ r # post
        \<and> (\<forall>x\<in>set pre. sales x < sales r)
        \<and> (\<forall>x\<in>set post. sales x \<le> sales r)
        \<and> answer_question (DataFrame data) question =
            Inr (AStr
              [digit (year (date r) div 1000), digit (year (date r) div 100 mod 10),
               digit (year (date r) div 10 mod 10), digit (year (date r) mod 10),
               CHR ''-'',
               digit (month (date r) div 10), digit (month (date r) mod 10),
               CHR ''-'',
               digit (day (date r) div 10), digit (day (date r) mod 10)])"
      by blast
    with False g show ?thesis by simp
  qed
qed

theorem highest_sale_date_answer_witness:
  "re_search pattern1 ''On what date did Jane Doe make the highest sale in Boston?'' = None
   \<and> re_search pattern2 ''On what date did Jane Doe make the highest sale in Boston?'' = None
   \<and> re_search pattern3 ''On what date did Jane Doe make the highest sale in Boston?'' = None
   \<and> re_search pattern4 ''On what date did Jane Doe make the highest sale in Boston?''
       = Some [''Jane Doe'', ''Boston'']
   \<and> answer_question (DataFrame example_store)
        ''On what date did Jane Doe make the highest sale in Boston?'' = Inr (AStr ''2024-02-10'')
   \<and> answer_question (DataFrame tie_store)
        ''On what date did Jane Doe make the highest sale in Boston?'' = Inr (AStr ''2024-01-05'')
   \<and> answer_question (DataFrame example_store)
        ''On what date did John Roe make the highest sale in Boston?''
       = Inr (AStr ''No sales data found for this rep in this city.'')"
proof -
  let ?n = "''On what date did John Roe make the highest sale in Boston?''"
  have n1: "re_search pattern1 ?n = None" by code_simp
  have n2: "re_search pattern2 ?n = None" by code_simp
  have n3: "re_search pattern3 ?n = None" by code_simp
  have n4: "re_search pattern4 ?n = Some [''John Roe'', ''Boston'']" by code_simp
  have no_rows: "filter (\<lambda>r. rep r = ''John Roe'' \<and> city r = ''Boston'') example_store = []"
    by (simp add: example_store_def)
  let ?q = "''On what date did Jane Doe make the highest sale in Boston?''"
  let ?cond = "\<lambda>r. rep r = ''Jane Doe'' \<and> city r = ''Boston''"
  let ?fmt = "\<lambda>r. [digit (year (date r) div 1000), digit (year (date r) div 100 mod 10),
                     digit (year (date r) div 10 mod 10), digit (year (date r) mod 10),
                     CHR ''-'',
                     digit (month (date r) div 10), digit (month (date r) mod 10),
                     CHR ''-'',
                     digit (day (date r) div 10), digit (day (date r) mod 10)]"
  have h1: "re_search pattern1 ?q = None" by code_simp
  have h2: "re_search pattern2 ?q = None" by code_simp
  have h3: "re_search pattern3 ?q = None" by code_simp
  have h4: "re_search pattern4 ?q = Some [''Jane Doe'', ''Boston'']" by code_simp
  have d: "\<forall>r\<in>set example_store. 1000 \<le> year (date r) \<and> year (date r) \<le> 9999
           \<and> 1 \<le> month (date r) \<and> month (date r) \<le> 12
           \<and> 1 \<le> day (date r) \<and> day (date r) \<le> 31"
    by (simp add: example_store_def)
  have d': "\<forall>r\<in>set tie_store. 1000 \<le> year (date r) \<and> year (date r) \<le> 9999
           \<and> 1 \<le> month (date r) \<and> month (date r) \<le> 12
           \<and> 1 \<le> day (date r) \<and> day (date r) \<le> 31"
    by (simp add: tie_store_def)
  obtain a b where ab: "example_store = [a, b]" "sales a = 100" "sales b = 250"
    "?fmt b = ''2024-02-10''" "?cond a" "?cond b"
  proof
    show "example_store = [example_store ! 0, example_store ! 1]" by (simp add: example_store_def)
    show "sales (example_store ! 0) = 100" by (simp add: example_store_def)
    show "sales (example_store ! 1) = 250" by (simp add: example_store_def)
    show "?fmt (example_store ! 1) = ''2024-02-10''" by code_simp
    show "?cond (example_store ! 0)" by (simp add: example_store_def)
    show "?cond (example_store ! 1)" by (simp add: example_store_def)
  qed
  have rows: "filter ?cond example_store = [a, b]" unfolding ab(1) using ab(5,6) by simp
  from highest_sale_date_answer [OF h1 h2 h3 h4 d] obtain pre r post where
    r: "[a, b] = pre @ r # post" "\<forall>x\<in>set pre. sales x < sales r" "\<forall>x\<in>set post. sales x \<le> sales r"
       "answer_question (DataFrame example_store) ?q = Inr (AStr (?fmt r))"
    by (auto simp: rows)
  from split_pair [OF r(1)] r(2,3) ab(2,3) have "r = b" by auto
  with r(4) ab(4) have e: "answer_question (DataFrame example_store) ?q = Inr (AStr ''2024-02-10'')"
    by simp
  obtain a' b' where ab': "tie_store = [a', b']" "sales a' = 100" "sales b' = 100"
    "?fmt a' = ''2024-01-05''" "?cond a'" "?cond b'"
  proof
    show "tie_store = [tie_store ! 0, tie_store ! 1]" by (simp add: tie_store_def)
    show "sales (tie_store ! 0) = 100" by (simp add: tie_store_def)
    show "sales (tie_store ! 1) = 100" by (simp add: tie_store_def)
    show "?fmt (tie_store ! 0) = ''2024-01-05''" by code_simp
    show "?cond (tie_store ! 0)" by (simp add: tie_store_def)
    show "?cond (tie_store ! 1)" by (simp add: tie_store_def)
  qed
  have rows': "filter ?cond tie_store = [a', b']" unfolding ab'(1) using ab'(5,6) by simp
  from highest_sale_date_answer [OF h1 h2 h3 h4 d'] obtain pre' r' post' where
    r': "[a', b'] = pre' @ r' # post'" "\<forall>x\<in>set pre'. sales x < sales r'"
        "\<forall>x\<in>set post'. sales x \<le> sales r'"
        "answer_question (DataFrame tie_store) ?q = Inr (AStr (?fmt r'))"
    by (auto simp: rows')
  from split_pair [OF r'(1)] r'(2,3) ab'(2,3) have "r' = a'" by auto
  with r'(4) ab'(4) have t: "answer_question (DataFrame tie_store) ?q = Inr (AStr ''2024-01-05'')"
    by simp
  from highest_sale_date_answer [OF n1 n2 n3 n4 d] no_rows
  have m: "answer_question (DataFrame example_store) ?n
             = Inr (AStr ''No sales data found for this rep in this city.'')"
    by auto
  from h1 h2 h3 h4 e t m show ?thesis by simp
qed



text \<open>
  Claim C5. When the store is empty the endpoint returns the answer
  \<open>Error: Dataset not loaded.\<close> for every question: the question is not looked at, and
  the reply is an ordinary reply, not an error.
\<close>

theorem empty_store_unavailable:
  assumes "df_empty df"
  shows "handle_query df q =
           Inr \<lparr>x_email = email_address, answer = AStr ''Error: Dataset not loaded.'',
                email = email_address\<rparr>"
  using assms by (simp add: handle_query_def)

theorem empty_store_unavailable_witness:
  "df_empty (DataFrame [])
   \<and> handle_query (DataFrame []) ''What is the total sales of Widget in Boston?'' =
       Inr \<lparr>x_email = email_address, answer = AStr ''Error: Dataset not loaded.'',
            email = email_address\<rparr>
   \<and> answer_question (DataFrame []) ''What is the total sales of Widget in Boston?'' =
       Inr (AInt 0)"
proof -
  have e: "df_empty (DataFrame [])" by (simp add: df_empty_def DataFrame_def)
  have a: "answer_question (DataFrame []) ''What is the total sales of Widget in Boston?'' =
       Inr (AInt 0)" by code_simp
  from e empty_store_unavailable [OF e, of "''What is the total sales of Widget in Boston?''"] a
  show ?thesis by blast
qed

text \<open>
  Claim C7. The patterns are tried in the order 1, 2, 3, 4 and the first that matches
  decides: the answer is the aggregation of pattern \<open>k\<close> on its captures whenever pattern
  \<open>k\<close> matches and no earlier pattern does, whatever the later patterns do.
\<close>

theorem first_match_wins:
  "(re_search pattern1 q = Some g \<longrightarrow> answer_question df q = total_sales df g)
   \<and> (re_search pattern1 q = None \<and> re_search pattern2 q = Some g \<longrightarrow>
        answer_question df q = count_reps df g)
   \<and> (re_search pattern1 q = None \<and> re_search pattern2 q = None
        \<and> re_search pattern3 q = Some g \<longrightarrow>
        answer_question df q = average_sales df g)
   \<and> (re_search pattern1 q = None \<and> re_search pattern2 q = None
        \<and> re_search pattern3 q = None \<and> re_search pattern4 q = Some g \<longrightarrow>
        answer_question df q = highest_sale_date df g)"
  by (simp add: answer_question_def)

theorem first_match_wins_witness:
  "re_search pattern1
     ''How many sales reps are there in East? What is the total sales of Widget in Boston?''
     = Some [''Widget'', ''Boston'']
   \<and> re_search pattern2
     ''How many sales reps are there in East? What is the total sales of Widget in Boston?''
     = Some [''East'']
   \<and> answer_question (DataFrame example_store)
     ''How many sales reps are there in East? What is the total sales of Widget in Boston?''
     = Inr (AInt 350)
   \<and> re_search pattern3
     ''What is the average sales for Widget in East? How many sales reps are there in East?''
     = Some [''Widget'', ''East'']
   \<and> answer_question (DataFrame example_store)
     ''What is the average sales for Widget in East? How many sales reps are there in East?''
     = Inr (AInt 1)
   \<and> re_search pattern4
     ''On what date did Jane Doe make the highest sale in Boston? What is the average sales for Widget in East?''
     = Some [''Jane Doe'', ''Boston'']
   \<and> answer_question (DataFrame example_store)
     ''On what date did Jane Doe make the highest sale in Boston? What is the average sales for Widget in East?''
     = Inr (AFloat 175)
   \<and> answer_question (DataFrame example_store)
     ''On what date did Jane Doe make the highest sale in Boston?''
     = Inr (AStr ''2024-02-10'')"
proof -
  let ?qa = "''How many sales reps are there in East? What is the total sales of Widget in Boston?''"
  let ?qb = "''What is the average sales for Widget in East? How many sales reps are there in East?''"
  let ?qc = "''On what date did Jane Doe make the highest sale in Boston? What is the average sales for Widget in East?''"
  let ?qd = "''On what date did Jane Doe make the highest sale in Boston?''"
  let ?df = "DataFrame example_store"
  have a1: "re_search pattern1 ?qa = Some [''Widget'', ''Boston'']" by code_simp
  have a2: "re_search pattern2 ?qa = Some [''East'']" by code_simp
  have b1: "re_search pattern1 ?qb = None" by code_simp
  have b2: "re_search pattern2 ?qb = Some [''East'']" by code_simp
  have b3: "re_search pattern3 ?qb = Some [''Widget'', ''East'']" by code_simp
  have c1: "re_search pattern1 ?qc = None" by code_simp
  have c2: "re_search pattern2 ?qc = None" by code_simp
  have c3: "re_search pattern3 ?qc = Some [''Widget'', ''East'']" by code_simp
  have c4: "re_search pattern4 ?qc = Some [''Jane Doe'', ''Boston'']" by code_simp
  have d1: "re_search pattern1 ?qd = None" by code_simp
  have d2: "re_search pattern2 ?qd = None" by code_simp
  have d3: "re_search pattern3 ?qd = None" by code_simp
  have d4: "re_search pattern4 ?qd = Some [''Jane Doe'', ''Boston'']" by code_simp
  have va: "total_sales ?df [''Widget'', ''Boston''] = Inr (AInt 350)" by code_simp
  have vb: "count_reps ?df [''East''] = Inr (AInt 1)" by code_simp
  have vc: "average_sales ?df [''Widget'', ''East''] = Inr (AFloat 175)" by code_simp
  have vd: "highest_sale_date ?df [''Jane Doe'', ''Boston''] = Inr (AStr ''2024-02-10'')"
    by code_simp
  from first_match_wins [of ?qa "[''Widget'', ''Boston'']" ?df] a1
  have "answer_question ?df ?qa = total_sales ?df [''Widget'', ''Boston'']" by blast
  with va have ra: "answer_question ?df ?qa = Inr (AInt 350)" by simp
  from first_match_wins [of ?qb "[''East'']" ?df] b1 b2
  have "answer_question ?df ?qb = count_reps ?df [''East'']" by blast
  with vb have rb: "answer_question ?df ?qb = Inr (AInt 1)" by simp
  from first_match_wins [of ?qc "[''Widget'', ''East'']" ?df] c1 c2 c3
  have "answer_question ?df ?qc = average_sales ?df [''Widget'', ''East'']" by blast
  with vc have rc: "answer_question ?df ?qc = Inr (AFloat 175)" by simp
  from first_match_wins [of ?qd "[''Jane Doe'', ''Boston'']" ?df] d1 d2 d3 d4
  have "answer_question ?df ?qd = highest_sale_date ?df [''Jane Doe'', ''Boston'']" by blast
  with vd have rd: "answer_question ?df ?qd = Inr (AStr ''2024-02-10'')" by simp
  from a1 a2 ra b3 rb c4 rc rd show ?thesis by blast
qed

text \<open>
  Claim C8. A question that matches none of the four patterns is answered with the message
  \<open>Sorry, I can't answer that question.\<close>, an ordinary answer; with a store that is not
  empty the endpoint returns it in an ordinary reply.
\<close>

theorem unrecognized_question:
  assumes "re_search pattern1 q = None" and "re_search pattern2 q = None"
    and "re_search pattern3 q = None" and "re_search pattern4 q = None"
  shows "answer_question df q = Inr (AStr ''Sorry, I can't answer that question.'')
         \<and> (\<not> df_empty df \<longrightarrow>
               handle_query df q =
                 Inr \<lparr>x_email = email_address,
                      answer = AStr ''Sorry, I can't answer that question.'',
                      email = email_address\<rparr>)"
  using assms by (simp add: answer_question_def handle_query_def)

theorem unrecognized_question_witness:
  "re_search pattern1 ''What is the weather today?'' = None
   \<and> re_search pattern2 ''What is the weather today?'' = None
   \<and> re_search pattern3 ''What is the weather today?'' = None
   \<and> re_search pattern4 ''What is the weather today?'' = None
   \<and> \<not> df_empty (DataFrame example_store)
   \<and> handle_query (DataFrame example_store) ''What is the weather today?'' =
       Inr \<lparr>x_email = email_address,
            answer = AStr ''Sorry, I can't answer that question.'',
            email = email_address\<rparr>"
proof -
  let ?q = "''What is the weather today?''"
  have h1: "re_search pattern1 ?q = None" by code_simp
  have h2: "re_search pattern2 ?q = None" by code_simp
  have h3: "re_search pattern3 ?q = None" by code_simp
  have h4: "re_search pattern4 ?q = None" by code_simp
  have ne: "\<not> df_empty (DataFrame example_store)"
    by (simp add: df_empty_def DataFrame_def example_store_def)
  from unrecognized_question [OF h1 h2 h3 h4, of "DataFrame example_store"] ne h1 h2 h3 h4
  show ?thesis by blast
qed

text \<open>
  Claim C9 as stated fails on the code. The city group of the fourth pattern is
  \<open>[\w\s]+\<close>: this question, whose city contains a space, matches the pattern, and
  the city is captured whole.
\<close>

theorem city_with_space_matches:
  "re_search pattern4 ''On what date did Jane Doe make the highest sale in New York?''
     = Some [''Jane Doe'', ''New York'']
   \<and> CHR '' '' \<in> set ''New York''"
  by code_simp

text \<open>
  Claim C9, amended. In the fourth pattern the rep capture is a non-empty string of word
  characters, whitespace, periods, apostrophes and hyphens, and the city capture is a
  non-empty string of word characters and whitespace. Conversely every question made of the
  words of the pattern, such a rep and such a city matches the pattern, also when the city
  contains whitespace.
\<close>

theorem pattern4_captures:
  "(re_search pattern4 q = Some g \<longrightarrow>
      (\<exists>rp c. g = [rp, c]
         \<and> rp \<noteq> []
         \<and> (\<forall>ch\<in>set rp. is_word ch \<or> is_space ch \<or> ch = CHR ''.'' \<or> ch = CHR 0x27 \<or> ch = CHR ''-'')
         \<and> c \<noteq> []
         \<and> (\<forall>ch\<in>set c. is_word ch \<or> is_space ch)))
   \<and> (rp' \<noteq> []
        \<and> (\<forall>ch\<in>set rp'. is_word ch \<or> is_space ch \<or> ch = CHR ''.'' \<or> ch = CHR 0x27 \<or> ch = CHR ''-'')
        \<and> c' \<noteq> []
        \<and> (\<forall>ch\<in>set c'. is_word ch \<or> is_space ch) \<longrightarrow>
        re_search pattern4
          (''On what date did '' @ rp' @ '' make the highest sale in '' @ c' @ ''?'') \<noteq> None)"
proof (intro conjI impI)
  assume "re_search pattern4 q = Some g"
  from two_groups [OF this groups_of_patterns(4)] obtain rp c where
    "g = [rp, c]" "captured WordSpaceDotQuoteDash rp" "captured WordSpace c"
    by blast
  then show "\<exists>rp c. g = [rp, c]
         \<and> rp \<noteq> []
         \<and> (\<forall>ch\<in>set rp. is_word ch \<or> is_space ch \<or> ch = CHR ''.'' \<or> ch = CHR 0x27 \<or> ch = CHR ''-'')
         \<and> c \<noteq> []
         \<and> (\<forall>ch\<in>set c. is_word ch \<or> is_space ch)"
    by (simp add: captured_def)
next
  assume a: "rp' \<noteq> []
        \<and> (\<forall>ch\<in>set rp'. is_word ch \<or> is_space ch \<or> ch = CHR ''.'' \<or> ch = CHR 0x27 \<or> ch = CHR ''-'')
        \<and> c' \<noteq> []
        \<and> (\<forall>ch\<in>set c'. is_word ch \<or> is_space ch)"
  then have "rp' \<noteq> []" "\<forall>ch\<in>set rp'. in_class WordSpaceDotQuoteDash ch"
    "c' \<noteq> []" "\<forall>ch\<in>set c'. in_class WordSpace ch"
    by simp_all
  from pattern4_canonical [OF refl refl this]
  show "re_search pattern4
          (''On what date did '' @ rp' @ '' make the highest sale in '' @ c' @ ''?'') \<noteq> None" .
qed

theorem pattern4_captures_witness:
  "re_search pattern4 ''On what date did Jane Doe make the highest sale in New York?''
     = Some [''Jane Doe'', ''New York'']
   \<and> re_search pattern4
       (''On what date did '' @ ''O'Neil-Smith Jr.'' @ '' make the highest sale in ''
        @ ''New York'' @ ''?'') \<noteq> None"
proof -
  have h: "re_search pattern4 ''On what date did Jane Doe make the highest sale in New York?''
     = Some [''Jane Doe'', ''New York'']" by code_simp
  have r: "''O'Neil-Smith Jr.'' \<noteq> []
        \<and> (\<forall>ch\<in>set ''O'Neil-Smith Jr.''. is_word ch \<or> is_space ch \<or> ch = CHR ''.'' \<or> ch = CHR 0x27 \<or> ch = CHR ''-'')
        \<and> ''New York'' \<noteq> []
        \<and> (\<forall>ch\<in>set ''New York''. is_word ch \<or> is_space ch)"
    by (simp add: is_word_def is_space_def in_range_def code_def)
  from pattern4_captures [of "''On what date did Jane Doe make the highest sale in New York?''"
      "[''Jane Doe'', ''New York'']" "''O'Neil-Smith Jr.''" "''New York''"] h r
  show ?thesis by blast
qed



end
